theory Spec2Isabelle
  imports Main "HOL-Library.Word"
begin

section \<open>SmartSpin2k: the control loops of \<^verbatim>\<open>src/Main.cpp\<close>\<close>

text \<open>
  The firmware keeps its data in global objects (\<^verbatim>\<open>ss2k\<close>, \<^verbatim>\<open>rtConfig\<close>,
  \<^verbatim>\<open>userConfig\<close>, \<^verbatim>\<open>spinBLEClient\<close>, \<^verbatim>\<open>auxSerialBuffer\<close>) and in function-local
  \<^verbatim>\<open>static\<close> variables. Here they are the fields of one record that every operation
  takes and returns. Calls into the collaborators (motion planner, motor driver, wireless
  client and server, sensor-data intake, auxiliary serial port) are recorded as a list of
  events in the order the code makes them. Log output (\<^verbatim>\<open>SS2K_LOG\<close>) and task delays
  (\<^verbatim>\<open>vTaskDelay\<close>) are not events.

  Each operation is modelled as one sequential run on the state it finds: writes of another
  task or of an interrupt handler in the middle of a run are not modelled.
\<close>

subsection \<open>Machine integers\<close>

text \<open>
  On the ESP32 \<^verbatim>\<open>int\<close>, \<^verbatim>\<open>int32_t\<close> and \<^verbatim>\<open>unsigned long\<close> have 32 bits and
  \<^verbatim>\<open>uint8_t\<close> has 8. Arithmetic is arithmetic on words (it wraps); the signed comparisons
  of C++ are \<open>\<le>s\<close> and \<open><s\<close>, the unsigned ones \<open>\<le>\<close> and \<open><\<close>.
\<close>

type_synonym int32 = "32 word"
type_synonym uint32 = "32 word"
type_synonym uint8 = "8 word"

subsection \<open>Constants of the headers\<close>

text \<open>
  \<^verbatim>\<open>Constants.h\<close>, the settings header and the board table are not part of the sources
  at hand: the values the code reads from them are parameters of the model. \<open>pwrScaler\<close> is
  \<^verbatim>\<open>currentBoard.pwrScaler\<close>.
  The two request frames \<^verbatim>\<open>peloton_rq_watts\<close> and \<^verbatim>\<open>peloton_rq_cad\<close> are arrays of
  \<^verbatim>\<open>PELOTON_RQ_SIZE\<close> bytes, here lists.
\<close>

record constants =
  STEPPER_SPEED :: uint32
  STEPPER_ERG_SPEED :: uint32
  STEPPER_ACCELERATION :: uint32
  THROTTLE_TEMP :: int32
  pwrScaler :: int32
  BLE_RECONNECT_INTERVAL :: int32
  TX_CHECK_INTERVAL :: int32
  AUX_BUF_SIZE :: nat
  HEADER :: uint8
  FOOTER :: uint8
  PELOTON_TX :: bool
  peloton_rq_watts :: "uint8 list"
  peloton_rq_cad :: "uint8 list"

subsection \<open>State\<close>

text \<open>
  The classes \<^verbatim>\<open>SS2K\<close>, \<^verbatim>\<open>RuntimeParameters\<close> and \<^verbatim>\<open>userParameters\<close> are declared in
  headers that are not part of the sources at hand. Modelled from the spec: the types of
  their fields follow the data model of the specification (shifter position, step bounds,
  target incline and target position are signed integers, the debounce fields a timestamp
  and a duration, the peer names strings that are compared by value). The configured
  constants \<open>shiftStep\<close> and \<open>inclineMultiplier\<close> are taken as signed integers, too, and
  \<open>currentIncline\<close> holds the reported position itself, not its image as a float.
\<close>

record state =
  \<comment> \<open>\<^verbatim>\<open>ss2k\<close>\<close>
  targetPosition :: int32
  lastShifterPosition :: int32
  stepperIsRunning :: bool
  externalControl :: bool
  syncMode :: bool
  lastDebounceTime :: uint32
  debounceDelay :: uint32
  \<comment> \<open>\<^verbatim>\<open>rtConfig\<close>\<close>
  shifterPosition :: int32
  minStep :: int32
  maxStep :: int32
  ERGMode :: bool
  targetIncline :: int32
  currentIncline :: int32
  \<comment> \<open>\<^verbatim>\<open>userConfig\<close>\<close>
  shiftStep :: int32
  inclineMultiplier :: int32
  shifterDir :: bool
  stepperDir :: bool
  connectedHeartMonitor :: string
  connectedPowerMeter :: string
  \<comment> \<open>\<^verbatim>\<open>spinBLEClient\<close>\<close>
  connectedHR :: bool
  connectedPM :: bool
  \<comment> \<open>the local \<^verbatim>\<open>_stepperDir\<close> of \<^verbatim>\<open>moveStepper\<close>, which lives as long as its loop\<close>
  stepperDirLocal :: bool
  \<comment> \<open>the \<^verbatim>\<open>static\<close> locals of \<^verbatim>\<open>checkDriverTemperature\<close>, \<^verbatim>\<open>checkBLEReconnect\<close>
      and \<^verbatim>\<open>checkSerial\<close>\<close>
  overTemp :: bool
  bleCheck :: int32
  txCheck :: int32
  alternate :: bool
  \<comment> \<open>the bytes waiting in the receive queue of \<^verbatim>\<open>auxSerial\<close>, and \<^verbatim>\<open>auxSerialBuffer\<close>:
      the list is \<^verbatim>\<open>data[0 .. len - 1]\<close>\<close>
  auxRx :: "uint8 list"
  auxSerialBuffer :: "uint8 list"

subsection \<open>Calls into the collaborators\<close>

datatype event =
    SetDirectionPin bool
  | SetEnablePin
  | SetAutoEnable bool
  | SetSpeedInHz uint32
  | SetAcceleration uint32
  | SetDelayToDisable uint32
  | StopMove
  | SetCurrentPosition int32
  | MoveTo int32
  | EnableOutputs
  | Irun uint8
  | NotifyShift
  | ResetDevices
  | ServerScan bool
  | CollectAndSet "uint8 list"
  | AuxWrite uint8

subsection \<open>The positioning loop: \<^verbatim>\<open>SS2K::moveStepper\<close>\<close>

text \<open>
  What one iteration reads from outside the state: whether the pointer \<^verbatim>\<open>stepper\<close> is
  non-null, the answers of \<^verbatim>\<open>stepper->isRunning()\<close>, \<^verbatim>\<open>stepper->getCurrentPosition()\<close>
  and \<^verbatim>\<open>connectedClientCount()\<close>, and whether the motor ever stops, that is whether the
  loop \<^verbatim>\<open>while (stepper->isMotorRunning())\<close> ends.
\<close>

record stepper_env =
  stepper :: bool
  isRunning :: bool
  getCurrentPosition :: int32
  connectedClientCount :: int32
  motorStops :: bool

text \<open>
  Lines 262 to 270: the calls before the loop. They go through the pointer without a test,
  so the loop is reached with a planner attached.
\<close>

definition moveStepper_startup :: "constants \<Rightarrow> state \<Rightarrow> state \<times> event list" where
  "moveStepper_startup c s =
     (s\<lparr>stepperDirLocal := stepperDir s\<rparr>,
      [SetDirectionPin (stepperDir s), SetEnablePin, SetAutoEnable True,
       SetSpeedInHz (STEPPER_SPEED c), SetAcceleration (STEPPER_ACCELERATION c),
       SetDelayToDisable 1000])"

text \<open>Lines 275 to 286: the target position, unless an external writer owns it.\<close>

definition computeTarget :: "constants \<Rightarrow> state \<Rightarrow> state \<times> event list" where
  "computeTarget c s =
     (if \<not> externalControl s then
        if ERGMode s then
          (s\<lparr>targetPosition := targetIncline s\<rparr>, [SetSpeedInHz (STEPPER_ERG_SPEED c)])
        else
          let s1 = s\<lparr>targetPosition := shifterPosition s * shiftStep s\<rparr>;
              s2 = s1\<lparr>targetPosition := targetPosition s1 + targetIncline s1 * inclineMultiplier s1\<rparr>
          in (s2, [])
      else (s, []))"

text \<open>Lines 288 to 293: in sync mode the planner's position is rebased.\<close>

definition syncPosition :: "state \<Rightarrow> event list" where
  "syncPosition s =
     (if syncMode s then [StopMove, SetCurrentPosition (targetPosition s)] else [])"

text \<open>Lines 295 to 301: the move that is commanded.\<close>

definition limitMove :: "state \<Rightarrow> event list" where
  "limitMove s =
     (if minStep s \<le>s targetPosition s \<and> targetPosition s \<le>s maxStep s then
        [MoveTo (targetPosition s)]
      else if targetPosition s \<le>s minStep s then
        [MoveTo (minStep s)]
      else
        [MoveTo (maxStep s)])"

text \<open>Lines 306 to 311: the outputs stay enabled while a client is connected.\<close>

definition idlePower :: "stepper_env \<Rightarrow> event list" where
  "idlePower e =
     (if 0 <s connectedClientCount e then [SetAutoEnable False, EnableOutputs]
      else [SetAutoEnable True])"

text \<open>
  Lines 313 to 319: a changed wiring direction is applied once the motor has stopped. When
  the motor never stops, the wait never ends and \<^verbatim>\<open>setDirectionPin\<close> is not reached.
\<close>

definition reloadDirection :: "stepper_env \<Rightarrow> state \<Rightarrow> state \<times> event list" where
  "reloadDirection e s =
     (if stepperDirLocal s \<noteq> stepperDir s then
        (s\<lparr>stepperDirLocal := stepperDir s\<rparr>,
         if motorStops e then [SetDirectionPin (stepperDir s)] else [])
      else (s, []))"

text \<open>Lines 273 to 320: one iteration of \<^verbatim>\<open>while (1)\<close>.\<close>

definition moveStepper_iter :: "constants \<Rightarrow> stepper_env \<Rightarrow> state \<Rightarrow> state \<times> event list" where
  "moveStepper_iter c e s =
     (if stepper e then
        let s1 = s\<lparr>stepperIsRunning := isRunning e\<rparr>;
            (s2, ev2) = computeTarget c s1;
            ev3 = syncPosition s2;
            ev4 = limitMove s2;
            s5 = s2\<lparr>currentIncline := getCurrentPosition e\<rparr>;
            ev6 = idlePower e;
            (s7, ev7) = reloadDirection e s5
        in (s7, ev2 @ ev3 @ ev4 @ ev6 @ ev7)
      else (s, []))"

text \<open>An iteration reaches its end unless it waits for a motor that never stops.\<close>

definition moveStepper_returns :: "stepper_env \<Rightarrow> state \<Rightarrow> bool" where
  "moveStepper_returns e s \<longleftrightarrow>
     \<not> (stepper e \<and> stepperDirLocal s \<noteq> stepperDir s \<and> \<not> motorStops e)"

text \<open>
  The iterations that follow one another. Between two of them the other task and the
  interrupt handlers may write the shared state: \<open>other\<close> is what they do to it. The run
  stops at an iteration that does not return.
\<close>

fun moveStepper_run :: "constants \<Rightarrow> (stepper_env \<times> (state \<Rightarrow> state)) list \<Rightarrow> state \<Rightarrow> event list" where
  "moveStepper_run c [] s = []"
| "moveStepper_run c ((e, other) # rest) s =
     (let (s', ev) = moveStepper_iter c e s
      in if moveStepper_returns e s then ev @ moveStepper_run c rest (other s') else ev)"

text \<open>
  Modelled from the spec: the motion planner is not part of the sources at hand. Its speed
  setting is the argument of the last \<^verbatim>\<open>setSpeedInHz\<close> call it received.
\<close>

fun speedAfter :: "event list \<Rightarrow> uint32 \<Rightarrow> uint32" where
  "speedAfter [] v = v"
| "speedAfter (SetSpeedInHz h # es) v = speedAfter es h"
| "speedAfter (_ # es) v = speedAfter es v"

text \<open>The positions that a list of calls commands to the planner.\<close>

fun movesOf :: "event list \<Rightarrow> int32 list" where
  "movesOf [] = []"
| "movesOf (MoveTo x # es) = x # movesOf es"
| "movesOf (_ # es) = movesOf es"

subsection \<open>The shifter interrupts: \<^verbatim>\<open>SS2K::deBounce\<close>, \<^verbatim>\<open>SS2K::shiftUp\<close>, \<^verbatim>\<open>SS2K::shiftDown\<close>\<close>

text \<open>
  What one interrupt reads from outside the state: the clock at the two calls of
  \<^verbatim>\<open>millis()\<close> in \<^verbatim>\<open>deBounce\<close> (the one that is compared and the one that is stored)
  and the level of the shifter's pin (\<open>True\<close> is HIGH).
\<close>

record irq_env =
  millisTest :: uint32
  millisStore :: uint32
  digitalRead :: bool

definition deBounce :: "irq_env \<Rightarrow> state \<Rightarrow> state \<times> bool" where
  "deBounce e s =
     (if debounceDelay s < millisTest e - lastDebounceTime s then
        (s\<lparr>lastDebounceTime := millisStore e\<rparr>, True)
      else (s, False))"

text \<open>
  In \<^verbatim>\<open>ss2k.deBounce() && !rtConfig.getERGMode()\<close> the call of \<^verbatim>\<open>deBounce\<close> comes
  first: it runs whatever the mode is. \<^verbatim>\<open>getShifterDir()\<close> is a \<^verbatim>\<open>bool\<close> that the
  arithmetic reads as 0 or 1.
\<close>

definition shiftUp :: "irq_env \<Rightarrow> state \<Rightarrow> state" where
  "shiftUp e s =
     (let (s1, elapsed) = deBounce e s in
      if elapsed \<and> \<not> ERGMode s1 then
        if \<not> digitalRead e then
          s1\<lparr>shifterPosition := shifterPosition s1 - 1 + (if shifterDir s1 then 1 else 0) * 2\<rparr>
        else s1\<lparr>lastDebounceTime := 0\<rparr>
      else s1)"

definition shiftDown :: "irq_env \<Rightarrow> state \<Rightarrow> state" where
  "shiftDown e s =
     (let (s1, elapsed) = deBounce e s in
      if elapsed \<and> \<not> ERGMode s1 then
        if \<not> digitalRead e then
          s1\<lparr>shifterPosition := shifterPosition s1 + 1 - (if shifterDir s1 then 1 else 0) * 2\<rparr>
        else s1\<lparr>lastDebounceTime := 0\<rparr>
      else s1)"

subsection \<open>The supervisory tick: the shift check of \<^verbatim>\<open>SS2K::maintenanceLoop\<close>\<close>

text \<open>Lines 190 to 205, the first statements of the loop's body.\<close>

definition maintenanceLoop_shift :: "state \<Rightarrow> state \<times> event list" where
  "maintenanceLoop_shift s =
     (let (s1, ev) =
        (if lastShifterPosition s <s shifterPosition s then
           ((if maxStep s <s targetPosition s
             then s\<lparr>shifterPosition := lastShifterPosition s\<rparr> else s),
            [NotifyShift])
         else if shifterPosition s <s lastShifterPosition s then
           ((if targetPosition s <s minStep s
             then s\<lparr>shifterPosition := lastShifterPosition s\<rparr> else s),
            [NotifyShift])
         else (s, []))
      in (s1\<lparr>lastShifterPosition := shifterPosition s1\<rparr>, ev))"

subsection \<open>The thermal guard: \<^verbatim>\<open>SS2K::checkDriverTemperature\<close>\<close>

text \<open>
  The function calls \<^verbatim>\<open>temperatureRead()\<close> at three places and converts each answer to
  \<^verbatim>\<open>int\<close>: \<open>t1\<close> is the converted answer in the first condition (line 436), \<open>t2\<close> the one
  in the throttled power (line 437), \<open>t3\<close> the one in the second condition (line 441). The
  throttled power is computed in \<^verbatim>\<open>int\<close> and stored in a \<^verbatim>\<open>uint8_t\<close>, which keeps its
  low 8 bits; \<^verbatim>\<open>irun\<close> takes a \<^verbatim>\<open>uint8_t\<close> as well.
\<close>

definition checkDriverTemperature ::
  "constants \<Rightarrow> int32 \<Rightarrow> int32 \<Rightarrow> int32 \<Rightarrow> state \<Rightarrow> state \<times> event list" where
  "checkDriverTemperature c t1 t2 t3 s =
     (if THROTTLE_TEMP c <s t1 then
        let throttledPower = (ucast ((THROTTLE_TEMP c - t2) + pwrScaler c) :: uint8)
        in (s\<lparr>overTemp := True\<rparr>, [Irun throttledPower])
      else if t3 <s THROTTLE_TEMP c then
        (s\<lparr>overTemp := False\<rparr>,
         if overTemp s then [Irun (ucast (pwrScaler c))] else [])
      else (s, []))"

subsection \<open>The auxiliary serial framer: \<^verbatim>\<open>SS2K::checkSerial\<close>\<close>

text \<open>
  Lines 469 to 474: the index \<open>k\<close> after the inner loop, which starts at the header and
  stops one past the first footer, or at the end of what was read.
\<close>

function findFooter :: "constants \<Rightarrow> uint8 list \<Rightarrow> nat \<Rightarrow> nat" where
  "findFooter c d k =
     (if k < length d then
        if d ! k = FOOTER c then k + 1 else findFooter c d (k + 1)
      else k)"
  by pat_completeness auto
termination
  by (relation "measure (\<lambda>(c, d, k). length d - k)") auto

text \<open>
  Lines 467 to 483: the outer loop from index \<open>i\<close> on. At the first header the bytes
  \<^verbatim>\<open>data[i .. k - 1]\<close> are copied and handed to \<^verbatim>\<open>collectAndSet\<close>, and the loop ends.
\<close>

function findHeader :: "constants \<Rightarrow> uint8 list \<Rightarrow> nat \<Rightarrow> event list" where
  "findHeader c d i =
     (if i < length d then
        if d ! i = HEADER c then
          let k = findFooter c d i;
              newBuf = map (\<lambda>j. d ! j) [i..<k]
          in [CollectAndSet newBuf]
        else findHeader c d (i + 1)
      else [])"
  by pat_completeness auto
termination
  by (relation "measure (\<lambda>(c, d, i). length d - i)") auto

declare findFooter.simps [simp del] findHeader.simps [simp del]

text \<open>
  \<^verbatim>\<open>auxSerial.available()\<close> is the number of bytes that wait; \<^verbatim>\<open>readBytes\<close> takes at
  most \<^verbatim>\<open>AUX_BUF_SIZE\<close> of them (bytes that arrive while it waits count as waiting).
\<close>

definition checkSerial :: "constants \<Rightarrow> state \<Rightarrow> state \<times> event list" where
  "checkSerial c s =
     (let (s1, ev1) =
        (if 8 \<le> length (auxRx s) then
           let d = take (AUX_BUF_SIZE c) (auxRx s);
               s' = s\<lparr>txCheck := TX_CHECK_INTERVAL c,
                      auxRx := drop (AUX_BUF_SIZE c) (auxRx s),
                      auxSerialBuffer := d\<rparr>
           in (s', findHeader c d 0)
         else (s, []))
      in
        if PELOTON_TX c \<and> TX_CHECK_INTERVAL c \<le>s txCheck s1 then
          (s1\<lparr>alternate := \<not> alternate s1, txCheck := 0\<rparr>,
           ev1 @ map AuxWrite (if alternate s1 then peloton_rq_watts c else peloton_rq_cad c))
        else if PELOTON_TX c then (s1\<lparr>txCheck := txCheck s1 + 1\<rparr>, ev1)
        else (s1, ev1))"

text \<open>The frames that a list of calls hands to the sensor-data intake.\<close>

fun framesOf :: "event list \<Rightarrow> uint8 list list" where
  "framesOf [] = []"
| "framesOf (CollectAndSet f # es) = f # framesOf es"
| "framesOf (_ # es) = framesOf es"

subsection \<open>The reconnect check: \<^verbatim>\<open>SS2K::checkBLEReconnect\<close>\<close>

text \<open>
  The condition is written as the code groups it: \<^verbatim>\<open>&&\<close> binds stronger than \<^verbatim>\<open>||\<close>, so
  the tests of \<^verbatim>\<open>"none"\<close> and of \<^verbatim>\<open>bleCheck\<close> belong to the power meter's half only.
\<close>

definition checkBLEReconnect :: "constants \<Rightarrow> state \<Rightarrow> state \<times> event list" where
  "checkBLEReconnect c s =
     (let (s1, ev) =
        (if (connectedHeartMonitor s \<noteq> ''any'' \<and> \<not> connectedHR s) \<or>
            ((connectedPowerMeter s \<noteq> ''any'' \<and> \<not> connectedPM s) \<and>
             (connectedPowerMeter s \<noteq> ''none'' \<and> connectedHeartMonitor s \<noteq> ''none'') \<and>
             BLE_RECONNECT_INTERVAL c \<le>s bleCheck s)
         then (s\<lparr>bleCheck := 0\<rparr>, [ResetDevices, ServerScan True])
         else (s, []))
      in (s1\<lparr>bleCheck := bleCheck s1 + 1\<rparr>, ev))"

subsection \<open>Sample inputs\<close>

text \<open>
  Concrete inputs on which the theorems below are tried. The values of the constants are
  examples (the headers that fix them are not at hand); the bounds, the shift step and the
  shifter position are those of the specification's scenario.
\<close>

definition sampleConstants :: constants where
  "sampleConstants =
     \<lparr>STEPPER_SPEED = 1500, STEPPER_ERG_SPEED = 2500, STEPPER_ACCELERATION = 3000,
      THROTTLE_TEMP = 72, pwrScaler = 31, BLE_RECONNECT_INTERVAL = 15,
      TX_CHECK_INTERVAL = 20, AUX_BUF_SIZE = 20, HEADER = 0xF1, FOOTER = 0xF6,
      PELOTON_TX = False, peloton_rq_watts = [0xF5, 0x44, 0x39, 0xF6],
      peloton_rq_cad = [0xF5, 0x41, 0x36, 0xF6]\<rparr>"

definition sampleState :: state where
  "sampleState =
     \<lparr>targetPosition = 0, lastShifterPosition = 50, stepperIsRunning = False,
      externalControl = False, syncMode = False, lastDebounceTime = 0, debounceDelay = 50,
      shifterPosition = 50, minStep = - 100, maxStep = 100, ERGMode = False,
      targetIncline = 0, currentIncline = 0,
      shiftStep = 2, inclineMultiplier = 3, shifterDir = True, stepperDir = True,
      connectedHeartMonitor = ''any'', connectedPowerMeter = ''any'',
      connectedHR = False, connectedPM = False,
      stepperDirLocal = True,
      overTemp = False, bleCheck = 1, txCheck = 0, alternate = False,
      auxRx = [], auxSerialBuffer = []\<rparr>"

definition sampleStepper :: stepper_env where
  "sampleStepper =
     \<lparr>stepper = True, isRunning = False, getCurrentPosition = 0,
      connectedClientCount = 0, motorStops = True\<rparr>"

definition sampleIrq :: irq_env where
  "sampleIrq = \<lparr>millisTest = 1000, millisStore = 1000, digitalRead = False\<rparr>"

section \<open>Properties of the positioning loop\<close>

lemma movesOf_append: "movesOf (xs @ ys) = movesOf xs @ movesOf ys"
  by (induction xs rule: movesOf.induct) simp_all

lemma speedAfter_append: "speedAfter (xs @ ys) v = speedAfter ys (speedAfter xs v)"
  by (induction xs v rule: speedAfter.induct) simp_all

lemma computeTarget_bounds:
  "minStep (fst (computeTarget c s)) = minStep s \<and> maxStep (fst (computeTarget c s)) = maxStep s"
  by (simp add: computeTarget_def Let_def)

lemma movesOf_computeTarget: "movesOf (snd (computeTarget c s)) = []"
  by (simp add: computeTarget_def Let_def)

lemma movesOf_syncPosition: "movesOf (syncPosition s) = []"
  by (simp add: syncPosition_def)

lemma movesOf_idlePower: "movesOf (idlePower e) = []"
  by (simp add: idlePower_def)

lemma movesOf_reloadDirection: "movesOf (snd (reloadDirection e s)) = []"
  by (simp add: reloadDirection_def)

lemma targetPosition_reloadDirection:
  "targetPosition (fst (reloadDirection e s)) = targetPosition s"
  by (simp add: reloadDirection_def)

text \<open>The only moves of an iteration are those of lines 295 to 301.\<close>

lemma moveStepper_iter_moves:
  "movesOf (snd (moveStepper_iter c e s)) =
     (if stepper e
      then movesOf (limitMove (fst (computeTarget c (s\<lparr>stepperIsRunning := isRunning e\<rparr>))))
      else [])"
  using movesOf_computeTarget [of c "s\<lparr>stepperIsRunning := isRunning e\<rparr>"]
    movesOf_reloadDirection [of e]
  by (simp add: moveStepper_iter_def Let_def split_beta movesOf_append
      movesOf_syncPosition movesOf_idlePower)

text \<open>The target position is written by lines 275 to 286 only.\<close>

lemma moveStepper_iter_target:
  "targetPosition (fst (moveStepper_iter c e s)) =
     (if stepper e
      then targetPosition (fst (computeTarget c (s\<lparr>stepperIsRunning := isRunning e\<rparr>)))
      else targetPosition s)"
  by (simp add: moveStepper_iter_def Let_def split_beta targetPosition_reloadDirection)

lemma limitMove_cases:
  assumes "minStep s \<le>s maxStep s"
  shows "\<exists>x. movesOf (limitMove s) = [x] \<and> minStep s \<le>s x \<and> x \<le>s maxStep s \<and>
           (minStep s \<le>s targetPosition s \<and> targetPosition s \<le>s maxStep s
              \<longrightarrow> x = targetPosition s) \<and>
           (targetPosition s <s minStep s \<longrightarrow> x = minStep s) \<and>
           (maxStep s <s targetPosition s \<longrightarrow> x = maxStep s)"
  using assms by (auto simp: limitMove_def word_sle_eq word_sless_alt)

text \<open>
  Claim C1. With \<open>minStep \<le> maxStep\<close>, an iteration of the positioning loop (with the
  planner attached) calls \<^verbatim>\<open>moveTo\<close> exactly once, and its argument lies in
  \<open>[minStep, maxStep]\<close>: it is the target position when that is in the range, \<open>minStep\<close>
  when the target is below the range and \<open>maxStep\<close> when it is above. The target position
  is the one the iteration has computed, or the one it found under external control.
\<close>

theorem moveStepper_command_clamped:
  assumes "minStep s \<le>s maxStep s" and "stepper e"
  shows "\<exists>x. movesOf (snd (moveStepper_iter c e s)) = [x] \<and>
           minStep s \<le>s x \<and> x \<le>s maxStep s \<and>
           (let tp = targetPosition (fst (moveStepper_iter c e s)) in
             (minStep s \<le>s tp \<and> tp \<le>s maxStep s \<longrightarrow> x = tp) \<and>
             (tp <s minStep s \<longrightarrow> x = minStep s) \<and>
             (maxStep s <s tp \<longrightarrow> x = maxStep s))"
proof -
  let ?s2 = "fst (computeTarget c (s\<lparr>stepperIsRunning := isRunning e\<rparr>))"
  have b: "minStep ?s2 = minStep s" "maxStep ?s2 = maxStep s"
    using computeTarget_bounds [of c "s\<lparr>stepperIsRunning := isRunning e\<rparr>"] by simp_all
  with assms have "minStep ?s2 \<le>s maxStep ?s2" by simp
  from limitMove_cases [OF this] show ?thesis
    using assms(2) by (simp add: moveStepper_iter_moves moveStepper_iter_target b Let_def)
qed

text \<open>
  On the scenario of the specification the target 100 is commanded as it is; with the
  shifter at 60 the target is 120 and the bound 100 is commanded.
\<close>

theorem moveStepper_command_clamped_witness:
  "minStep sampleState \<le>s maxStep sampleState \<and> stepper sampleStepper \<and>
   movesOf (snd (moveStepper_iter sampleConstants sampleStepper sampleState)) = [100] \<and>
   targetPosition (fst (moveStepper_iter sampleConstants sampleStepper
      (sampleState\<lparr>shifterPosition := 60\<rparr>))) = 120 \<and>
   movesOf (snd (moveStepper_iter sampleConstants sampleStepper
      (sampleState\<lparr>shifterPosition := 60\<rparr>))) = [100]"
  using moveStepper_command_clamped [of sampleState sampleStepper sampleConstants]
    moveStepper_command_clamped [of "sampleState\<lparr>shifterPosition := 60\<rparr>" sampleStepper
      sampleConstants]
  by (simp add: sampleState_def sampleStepper_def moveStepper_iter_moves
      moveStepper_iter_target computeTarget_def limitMove_def Let_def)

text \<open>The sum of two products of 32-bit integers is exact as long as it fits.\<close>

lemma sint_sum_of_products:
  fixes a b c d :: int32
  assumes "- (2 ^ 31) \<le> sint a * sint b + sint c * sint d"
    and "sint a * sint b + sint c * sint d < 2 ^ 31"
  shows "sint (a * b + c * d) = sint a * sint b + sint c * sint d"
proof -
  have "sint (a * b + c * d) = signed_take_bit 31 (sint a * sint b + sint c * sint d)"
    by (simp add: sint_word_ariths signed_take_bit_add signed_take_bit_mult)
  also have "\<dots> = sint a * sint b + sint c * sint d"
    using assms by (intro signed_take_bit_int_eq_self) simp_all
  finally show ?thesis .
qed

text \<open>
  Claim C5. In simulation mode (\<open>externalControl\<close> false, ERG mode disabled), an iteration
  of the positioning loop (with the planner attached) sets \<open>targetPosition\<close> to
  \<open>shifterPosition * shiftStep + targetIncline * inclineMultiplier\<close>: as an expression
  of the machine's integers and, whenever that number fits into 32 bits, as the exact
  integer.
\<close>

theorem simulation_target:
  assumes "stepper e" and "\<not> externalControl s" and "\<not> ERGMode s"
  shows "targetPosition (fst (moveStepper_iter c e s)) =
           shifterPosition s * shiftStep s + targetIncline s * inclineMultiplier s \<and>
         (let exact = sint (shifterPosition s) * sint (shiftStep s) +
                      sint (targetIncline s) * sint (inclineMultiplier s)
          in - (2 ^ 31) \<le> exact \<and> exact < 2 ^ 31 \<longrightarrow>
             sint (targetPosition (fst (moveStepper_iter c e s))) = exact)"
proof -
  have "targetPosition (fst (moveStepper_iter c e s)) =
          shifterPosition s * shiftStep s + targetIncline s * inclineMultiplier s"
    using assms by (simp add: moveStepper_iter_target computeTarget_def Let_def)
  then show ?thesis by (simp add: Let_def sint_sum_of_products)
qed

theorem simulation_target_witness:
  "stepper sampleStepper \<and> \<not> externalControl sampleState \<and> \<not> ERGMode sampleState \<and>
   sint (targetPosition (fst (moveStepper_iter sampleConstants sampleStepper
      (sampleState\<lparr>targetIncline := 7\<rparr>)))) = 50 * 2 + 7 * 3"
  using simulation_target [of sampleStepper "sampleState\<lparr>targetIncline := 7\<rparr>" sampleConstants]
  by (simp add: sampleStepper_def sampleState_def)

text \<open>
  Claim C9. Two iterations of the positioning loop (with the planner attached) in ERG mode
  (\<open>externalControl\<close> false, ERG mode enabled), from states that agree on \<open>targetIncline\<close>
  and may differ in everything else, the shifter position included, compute the same
  \<open>targetPosition\<close>, which is \<open>targetIncline\<close>.
\<close>

theorem erg_target_ignores_shifter:
  assumes "stepper e1" and "stepper e2"
    and "\<not> externalControl s1" and "\<not> externalControl s2"
    and "ERGMode s1" and "ERGMode s2"
    and "targetIncline s1 = targetIncline s2"
  shows "targetPosition (fst (moveStepper_iter c1 e1 s1)) =
           targetPosition (fst (moveStepper_iter c2 e2 s2)) \<and>
         targetPosition (fst (moveStepper_iter c1 e1 s1)) = targetIncline s1"
  using assms by (simp add: moveStepper_iter_target computeTarget_def)

theorem erg_target_ignores_shifter_witness:
  "shifterPosition (sampleState\<lparr>ERGMode := True, targetIncline := 40\<rparr>) \<noteq>
     shifterPosition (sampleState\<lparr>ERGMode := True, targetIncline := 40, shifterPosition := 7\<rparr>) \<and>
   targetPosition (fst (moveStepper_iter sampleConstants sampleStepper
     (sampleState\<lparr>ERGMode := True, targetIncline := 40\<rparr>))) = 40 \<and>
   targetPosition (fst (moveStepper_iter sampleConstants sampleStepper
     (sampleState\<lparr>ERGMode := True, targetIncline := 40, shifterPosition := 7\<rparr>))) = 40"
  using erg_target_ignores_shifter [of sampleStepper sampleStepper
      "sampleState\<lparr>ERGMode := True, targetIncline := 40\<rparr>"
      "sampleState\<lparr>ERGMode := True, targetIncline := 40, shifterPosition := 7\<rparr>"
      sampleConstants sampleConstants]
  by (simp add: sampleStepper_def sampleState_def moveStepper_iter_target computeTarget_def)

subsection \<open>The speed setting\<close>

text \<open>An iteration that takes the ERG branch leaves the ERG speed behind.\<close>

lemma iter_erg_speed:
  assumes "stepper e" and "\<not> externalControl s" and "ERGMode s"
  shows "speedAfter (snd (moveStepper_iter c e s)) v = STEPPER_ERG_SPEED c"
  using assms
  by (simp add: moveStepper_iter_def computeTarget_def syncPosition_def limitMove_def
      idlePower_def reloadDirection_def Let_def split_beta speedAfter_append)

text \<open>No iteration sets any other speed.\<close>

lemma iter_speeds:
  "SetSpeedInHz h \<in> set (snd (moveStepper_iter c e s)) \<Longrightarrow> h = STEPPER_ERG_SPEED c"
  by (auto simp: moveStepper_iter_def computeTarget_def syncPosition_def limitMove_def
      idlePower_def reloadDirection_def Let_def split_beta split: if_splits)

lemma run_speeds:
  "SetSpeedInHz h \<in> set (moveStepper_run c iters s) \<Longrightarrow> h = STEPPER_ERG_SPEED c"
proof (induction iters arbitrary: s)
  case Nil
  then show ?case by simp
next
  case (Cons it iters)
  obtain e other where it: "it = (e, other)" by (cases it)
  from Cons.prems it
  have "SetSpeedInHz h \<in> set (snd (moveStepper_iter c e s)) \<or>
        SetSpeedInHz h \<in> set (moveStepper_run c iters (other (fst (moveStepper_iter c e s))))"
    by (auto simp: split_beta Let_def split: if_splits)
  then show ?case using iter_speeds Cons.IH by blast
qed

lemma speedAfter_only:
  "\<forall>h. SetSpeedInHz h \<in> set es \<longrightarrow> h = v \<Longrightarrow> speedAfter es v = v"
  by (induction es v rule: speedAfter.induct) auto

lemma run_keeps_erg_speed:
  "speedAfter (moveStepper_run c iters s) (STEPPER_ERG_SPEED c) = STEPPER_ERG_SPEED c"
  by (rule speedAfter_only) (blast dest: run_speeds)

lemmas iter_defs = moveStepper_iter_def computeTarget_def syncPosition_def limitMove_def
      idlePower_def reloadDirection_def moveStepper_returns_def moveStepper_startup_def

text \<open>
  Claim C10, read by the flag alone, fails: under external control an iteration that runs
  with ERG mode enabled skips line 279, and the speed stays the one of the startup.
\<close>

theorem erg_flag_under_external_control_counterexample:
  "ERGMode (sampleState\<lparr>ERGMode := True, externalControl := True\<rparr>) \<and>
   stepper sampleStepper \<and>
   moveStepper_returns sampleStepper (sampleState\<lparr>ERGMode := True, externalControl := True\<rparr>) \<and>
   speedAfter
     (snd (moveStepper_startup sampleConstants sampleState) @
      moveStepper_run sampleConstants [(sampleStepper, \<lambda>s. s), (sampleStepper, \<lambda>s. s)]
        (sampleState\<lparr>ERGMode := True, externalControl := True\<rparr>)) 0
     = STEPPER_SPEED sampleConstants \<and>
   STEPPER_SPEED sampleConstants \<noteq> STEPPER_ERG_SPEED sampleConstants"
  by (simp add: sampleStepper_def sampleState_def sampleConstants_def iter_defs Let_def)

text \<open>
  Claim C10, amended. Once an iteration of the positioning loop has taken the ERG branch
  (planner attached, \<open>externalControl\<close> false, ERG mode enabled), the speed setting is the
  ERG speed after that iteration and after every later one, whatever the later iterations
  find in the state (simulation mode included) and whatever the speed was before. No
  iteration sets a speed other than the ERG speed; the normal speed is set by the startup
  calls.
\<close>

theorem erg_speed_persists:
  assumes "stepper e" and "\<not> externalControl s" and "ERGMode s"
  shows "speedAfter (moveStepper_run c ((e, other) # rest) s) v = STEPPER_ERG_SPEED c \<and>
         (\<forall>iters s' h. SetSpeedInHz h \<in> set (moveStepper_run c iters s')
            \<longrightarrow> h = STEPPER_ERG_SPEED c) \<and>
         speedAfter (snd (moveStepper_startup c s0)) v0 = STEPPER_SPEED c"
proof -
  have "speedAfter (moveStepper_run c ((e, other) # rest) s) v = STEPPER_ERG_SPEED c"
    using iter_erg_speed [OF assms, of c v]
    by (simp add: split_beta Let_def speedAfter_append run_keeps_erg_speed)
  moreover have "speedAfter (snd (moveStepper_startup c s0)) v0 = STEPPER_SPEED c"
    by (simp add: moveStepper_startup_def)
  ultimately show ?thesis using run_speeds by blast
qed

text \<open>An ERG iteration followed by an iteration in simulation mode: 2500 after both.\<close>

theorem erg_speed_persists_witness:
  "stepper sampleStepper \<and> \<not> externalControl (sampleState\<lparr>ERGMode := True\<rparr>) \<and>
   ERGMode (sampleState\<lparr>ERGMode := True\<rparr>) \<and>
   \<not> ERGMode ((\<lambda>s. s\<lparr>ERGMode := False\<rparr>)
       (fst (moveStepper_iter sampleConstants sampleStepper (sampleState\<lparr>ERGMode := True\<rparr>)))) \<and>
   speedAfter
     (moveStepper_run sampleConstants
        [(sampleStepper, \<lambda>s. s\<lparr>ERGMode := False\<rparr>), (sampleStepper, \<lambda>s. s)]
        (sampleState\<lparr>ERGMode := True\<rparr>))
     (speedAfter (snd (moveStepper_startup sampleConstants sampleState)) 0) = 2500 \<and>
   speedAfter (snd (moveStepper_startup sampleConstants sampleState)) 0 = 1500"
  using erg_speed_persists [of sampleStepper "sampleState\<lparr>ERGMode := True\<rparr>" sampleConstants
      "\<lambda>s. s\<lparr>ERGMode := False\<rparr>" "[(sampleStepper, \<lambda>s. s)]"
      "speedAfter (snd (moveStepper_startup sampleConstants sampleState)) 0" sampleState 0]
  by (simp add: sampleStepper_def sampleState_def sampleConstants_def iter_defs Let_def)

section \<open>Properties of the shifter interrupts\<close>

text \<open>
  Claim C4 fails: in ERG mode the handler still runs \<^verbatim>\<open>deBounce\<close>, which stores the clock
  in \<open>lastDebounceTime\<close> when the debounce delay has passed.
\<close>

theorem shift_in_erg_mode_counterexample:
  "ERGMode (sampleState\<lparr>ERGMode := True\<rparr>) \<and>
   shiftUp sampleIrq (sampleState\<lparr>ERGMode := True\<rparr>) \<noteq> sampleState\<lparr>ERGMode := True\<rparr> \<and>
   lastDebounceTime (sampleState\<lparr>ERGMode := True\<rparr>) = 0 \<and>
   lastDebounceTime (shiftUp sampleIrq (sampleState\<lparr>ERGMode := True\<rparr>)) = 1000"
  by (simp add: sampleState_def sampleIrq_def shiftUp_def deBounce_def)

text \<open>
  Claim C4, amended. In ERG mode an invocation of the shift-up or of the shift-down
  handler leaves \<open>shifterPosition\<close> and every other field but \<open>lastDebounceTime\<close> as they
  are; \<open>lastDebounceTime\<close> is set to the clock when more than \<open>debounceDelay\<close> has passed
  since its value, and is left as it is otherwise.
\<close>

theorem shift_in_erg_mode:
  assumes "ERGMode s"
  shows "shiftUp e s =
           s\<lparr>lastDebounceTime :=
               if debounceDelay s < millisTest e - lastDebounceTime s
               then millisStore e else lastDebounceTime s\<rparr> \<and>
         shiftDown e s = shiftUp e s"
  using assms by (simp add: shiftUp_def shiftDown_def deBounce_def)

theorem shift_in_erg_mode_witness:
  "ERGMode (sampleState\<lparr>ERGMode := True\<rparr>) \<and>
   shiftUp sampleIrq (sampleState\<lparr>ERGMode := True\<rparr>) =
     sampleState\<lparr>ERGMode := True, lastDebounceTime := 1000\<rparr> \<and>
   shiftDown (sampleIrq\<lparr>millisTest := 20\<rparr>) (sampleState\<lparr>ERGMode := True\<rparr>) =
     sampleState\<lparr>ERGMode := True\<rparr>"
  using shift_in_erg_mode [of "sampleState\<lparr>ERGMode := True\<rparr>" sampleIrq]
    shift_in_erg_mode [of "sampleState\<lparr>ERGMode := True\<rparr>" "sampleIrq\<lparr>millisTest := 20\<rparr>"]
  by (simp add: sampleState_def sampleIrq_def)

section \<open>Properties of the supervisory shift check\<close>

text \<open>
  Claim C6 fails: the check does not compute the target that the new shifter position
  would give, it reads the stored \<open>targetPosition\<close>. Here the shifter went from 50 to 51,
  the next iteration of the positioning loop would compute 102, above \<open>maxStep = 100\<close>,
  but the stored target is still 100 and the shift is kept.
\<close>

theorem shift_check_counterexample:
  "lastShifterPosition (sampleState\<lparr>shifterPosition := 51, targetPosition := 100\<rparr>)
     <s shifterPosition (sampleState\<lparr>shifterPosition := 51, targetPosition := 100\<rparr>) \<and>
   targetPosition (fst (moveStepper_iter sampleConstants sampleStepper
     (sampleState\<lparr>shifterPosition := 51, targetPosition := 100\<rparr>))) = 102 \<and>
   maxStep (sampleState\<lparr>shifterPosition := 51, targetPosition := 100\<rparr>) <s 102 \<and>
   shifterPosition (fst (maintenanceLoop_shift
     (sampleState\<lparr>shifterPosition := 51, targetPosition := 100\<rparr>))) = 51 \<and>
   lastShifterPosition (sampleState\<lparr>shifterPosition := 51, targetPosition := 100\<rparr>) = 50"
  by (simp add: sampleState_def sampleStepper_def maintenanceLoop_shift_def
      moveStepper_iter_target computeTarget_def Let_def word_sless_alt)

text \<open>
  Claim C6, amended. On a supervisory tick in which \<open>shifterPosition\<close> is above the
  snapshot, \<open>shifterPosition\<close> is forced back to the snapshot if and only if the stored
  \<open>targetPosition\<close> exceeds \<open>maxStep\<close>; when it is below the snapshot, if and only if the
  stored \<open>targetPosition\<close> is below \<open>minStep\<close>. In both cases the peers are notified once.
  Afterwards the snapshot is the (possibly corrected) \<open>shifterPosition\<close>, and no other field
  has changed.
\<close>

theorem shift_check:
  "(lastShifterPosition s <s shifterPosition s \<longrightarrow>
      shifterPosition (fst (maintenanceLoop_shift s)) =
        (if maxStep s <s targetPosition s then lastShifterPosition s else shifterPosition s) \<and>
      snd (maintenanceLoop_shift s) = [NotifyShift]) \<and>
   (shifterPosition s <s lastShifterPosition s \<longrightarrow>
      shifterPosition (fst (maintenanceLoop_shift s)) =
        (if targetPosition s <s minStep s then lastShifterPosition s else shifterPosition s) \<and>
      snd (maintenanceLoop_shift s) = [NotifyShift]) \<and>
   lastShifterPosition (fst (maintenanceLoop_shift s)) =
     shifterPosition (fst (maintenanceLoop_shift s)) \<and>
   fst (maintenanceLoop_shift s) =
     s\<lparr>shifterPosition := shifterPosition (fst (maintenanceLoop_shift s)),
       lastShifterPosition := shifterPosition (fst (maintenanceLoop_shift s))\<rparr>"
  by (auto simp: maintenanceLoop_shift_def Let_def word_sless_alt)

theorem shift_check_witness:
  "lastShifterPosition (sampleState\<lparr>shifterPosition := 51, targetPosition := 102\<rparr>)
     <s shifterPosition (sampleState\<lparr>shifterPosition := 51, targetPosition := 102\<rparr>) \<and>
   maintenanceLoop_shift (sampleState\<lparr>shifterPosition := 51, targetPosition := 102\<rparr>) =
     (sampleState\<lparr>shifterPosition := 50, targetPosition := 102\<rparr>, [NotifyShift]) \<and>
   shifterPosition (sampleState\<lparr>shifterPosition := 49, targetPosition := - 102\<rparr>)
     <s lastShifterPosition (sampleState\<lparr>shifterPosition := 49, targetPosition := - 102\<rparr>) \<and>
   maintenanceLoop_shift (sampleState\<lparr>shifterPosition := 49, targetPosition := - 102\<rparr>) =
     (sampleState\<lparr>shifterPosition := 50, targetPosition := - 102\<rparr>, [NotifyShift]) \<and>
   maintenanceLoop_shift (sampleState\<lparr>shifterPosition := 49, targetPosition := 98\<rparr>) =
     (sampleState\<lparr>shifterPosition := 49, lastShifterPosition := 49, targetPosition := 98\<rparr>,
      [NotifyShift])"
  using shift_check [of "sampleState\<lparr>shifterPosition := 51, targetPosition := 102\<rparr>"]
    shift_check [of "sampleState\<lparr>shifterPosition := 49, targetPosition := - 102\<rparr>"]
    shift_check [of "sampleState\<lparr>shifterPosition := 49, targetPosition := 98\<rparr>"]
  by (simp add: sampleState_def maintenanceLoop_shift_def Let_def word_sless_alt)

section \<open>Properties of the thermal guard\<close>

lemma throttle_call:
  assumes "THROTTLE_TEMP c <s t1"
  shows "checkDriverTemperature c t1 t2 t3 s =
           (s\<lparr>overTemp := True\<rparr>, [Irun (ucast (THROTTLE_TEMP c - t2 + pwrScaler c))])"
  using assms by (simp add: checkDriverTemperature_def)

lemma ucast_of_int: "(ucast (word_of_int k :: int32) :: uint8) = word_of_int k"
  by (simp add: ucast_eq word_eq_iff_unsigned [where ?'a = int] uint_word_of_int_eq)

text \<open>
  As long as \<open>(THROTTLE_TEMP - temperature) + pwrScaler\<close> lies in \<open>[0, 255]\<close>, the byte that
  is applied is that number.
\<close>

lemma throttle_exact_in_range:
  fixes T t p :: int32
  assumes "0 \<le> sint T - sint t + sint p" and "sint T - sint t + sint p < 256"
  shows "uint (ucast (T - t + p) :: uint8) = sint T - sint t + sint p"
proof -
  have "T - t + p = word_of_int (sint T - sint t + sint p)"
    by simp
  then have "uint (ucast (T - t + p) :: uint8) = take_bit 8 (sint T - sint t + sint p)"
    by (simp only: ucast_of_int uint_word_of_int_eq) simp
  also have "\<dots> = sint T - sint t + sint p"
    using assms by (simp add: take_bit_int_eq_self)
  finally show ?thesis .
qed

lemma ucast_minus_one: "(ucast (- 1 :: int32) :: uint8) = 255"
  by code_simp

text \<open>
  One degree above \<open>THROTTLE_TEMP + pwrScaler\<close> the byte is 255, whatever the constants.
\<close>

lemma throttle_wraps_for_all_constants:
  assumes "THROTTLE_TEMP c <s t1"
  shows "snd (checkDriverTemperature c t1 (THROTTLE_TEMP c + pwrScaler c + 1) t3 s) = [Irun 255]"
  using assms by (simp add: checkDriverTemperature_def ucast_minus_one)

text \<open>
  Claim C7 does not hold on the code: the throttled power is stored in a \<^verbatim>\<open>uint8_t\<close>.
  With the threshold 72 and the power scaler 31, the temperature 103 applies 0 and the
  temperature 104 applies 255, where \<open>(72 - 104) + 31\<close> is \<open>-1\<close>: the applied limit is not
  that number and it rises with the temperature.
\<close>

theorem throttle_wraps:
  "THROTTLE_TEMP sampleConstants <s 103 \<and>
   snd (checkDriverTemperature sampleConstants 103 103 103 sampleState) = [Irun 0] \<and>
   snd (checkDriverTemperature sampleConstants 104 104 104 sampleState) = [Irun 255] \<and>
   sint (THROTTLE_TEMP sampleConstants) - 104 + sint (pwrScaler sampleConstants) = - 1"
  by (simp add: sampleConstants_def checkDriverTemperature_def word_sless_alt ucast_minus_one)

text \<open>
  Claim C8 fails at the threshold itself: with the flag set and the temperature equal to
  \<open>THROTTLE_TEMP\<close> neither branch is taken, nothing is applied and the flag stays set.
\<close>

theorem thermal_release_counterexample:
  "overTemp (sampleState\<lparr>overTemp := True\<rparr>) \<and>
   checkDriverTemperature sampleConstants (THROTTLE_TEMP sampleConstants)
     (THROTTLE_TEMP sampleConstants) (THROTTLE_TEMP sampleConstants)
     (sampleState\<lparr>overTemp := True\<rparr>) = (sampleState\<lparr>overTemp := True\<rparr>, [])"
  by (simp add: sampleConstants_def checkDriverTemperature_def word_sless_alt)

text \<open>
  Claim C8, amended. When the over-temperature flag is set and the temperature is strictly
  under the threshold, an invocation of the thermal guard applies the board's nominal
  current limit and clears the flag; when the temperature equals the threshold it applies
  nothing and leaves the state, the flag included, as it is.
\<close>

theorem thermal_release:
  assumes "overTemp s"
  shows "(t <s THROTTLE_TEMP c \<longrightarrow>
            checkDriverTemperature c t t t s =
              (s\<lparr>overTemp := False\<rparr>, [Irun (ucast (pwrScaler c))])) \<and>
         (t = THROTTLE_TEMP c \<longrightarrow> checkDriverTemperature c t t t s = (s, []))"
  using assms by (auto simp: checkDriverTemperature_def word_sless_alt)

theorem thermal_release_witness:
  "overTemp (sampleState\<lparr>overTemp := True\<rparr>) \<and> (71 :: int32) <s THROTTLE_TEMP sampleConstants \<and>
   checkDriverTemperature sampleConstants 71 71 71 (sampleState\<lparr>overTemp := True\<rparr>) =
     (sampleState, [Irun 31]) \<and>
   (72 :: int32) = THROTTLE_TEMP sampleConstants \<and>
   checkDriverTemperature sampleConstants 72 72 72 (sampleState\<lparr>overTemp := True\<rparr>) =
     (sampleState\<lparr>overTemp := True\<rparr>, [])"
  using thermal_release [of "sampleState\<lparr>overTemp := True\<rparr>" 71 sampleConstants]
    thermal_release [of "sampleState\<lparr>overTemp := True\<rparr>" 72 sampleConstants]
  by (simp add: sampleState_def sampleConstants_def word_sless_alt ucast_eq)

section \<open>Properties of the auxiliary serial framer\<close>

lemma framesOf_append: "framesOf (xs @ ys) = framesOf xs @ framesOf ys"
  by (induction xs rule: framesOf.induct) simp_all

lemma framesOf_AuxWrite: "framesOf (map AuxWrite bs) = []"
  by (induction bs) simp_all

text \<open>Without a footer from \<open>k\<close> on, the inner loop runs to the end of what was read.\<close>

lemma findFooter_none:
  "k \<le> length d \<Longrightarrow> FOOTER c \<notin> set (drop k d) \<Longrightarrow> findFooter c d k = length d"
proof (induction c d k rule: findFooter.induct)
  case (1 c d k)
  show ?case
  proof (cases "k < length d")
    case True
    then have d: "drop k d = d ! k # drop (k + 1) d"
      by (simp add: Cons_nth_drop_Suc)
    with "1.prems" have ne: "d ! k \<noteq> FOOTER c" and rest: "FOOTER c \<notin> set (drop (k + 1) d)"
      by auto
    from True ne rest "1.IH" have "findFooter c d (k + 1) = length d" by simp
    with True ne show ?thesis by (subst findFooter.simps) simp
  next
    case False
    with "1.prems" show ?thesis by (subst findFooter.simps) simp
  qed
qed

text \<open>The outer loop stops at the first header.\<close>

lemma findHeader_first:
  "i \<le> length pre \<Longrightarrow> HEADER c \<notin> set (drop i pre) \<Longrightarrow>
   findHeader c (pre @ HEADER c # post) i =
     [CollectAndSet (map (\<lambda>j. (pre @ HEADER c # post) ! j)
        [length pre ..< findFooter c (pre @ HEADER c # post) (length pre)])]"
proof (induction "length pre - i" arbitrary: i)
  case 0
  then have "i = length pre" by simp
  then show ?case by (subst findHeader.simps) (simp add: Let_def)
next
  case (Suc n)
  then have lt: "i < length pre" by simp
  then have d: "drop i pre = pre ! i # drop (i + 1) pre"
    by (simp add: Cons_nth_drop_Suc)
  with Suc.prems have ne: "pre ! i \<noteq> HEADER c" and rest: "HEADER c \<notin> set (drop (i + 1) pre)"
    by auto
  from Suc.hyps(2) lt have "n = length pre - (i + 1)" by simp
  from Suc.hyps(1) [OF this _ rest] lt
  have "findHeader c (pre @ HEADER c # post) (i + 1) =
     [CollectAndSet (map (\<lambda>j. (pre @ HEADER c # post) ! j)
        [length pre ..< findFooter c (pre @ HEADER c # post) (length pre)])]" by simp
  with lt ne show ?case
    by (subst findHeader.simps) (simp add: nth_append)
qed

lemma slice_to_end: "map (\<lambda>j. (pre @ ys) ! j) [length pre ..< length (pre @ ys)] = ys"
proof -
  have "[length pre ..< length (pre @ ys)] = map (\<lambda>i. i + length pre) [0 ..< length ys]"
    by (simp only: map_add_upt length_append add.commute)
  then have "map (\<lambda>j. (pre @ ys) ! j) [length pre ..< length (pre @ ys)] =
             map (\<lambda>i. ys ! i) [0 ..< length ys]"
    by (simp add: o_def nth_append)
  then show ?thesis by (simp only: map_nth)
qed

text \<open>
  Claim C2 fails: the code does not test whether the inner loop has found a footer. Eight
  bytes that start with the header and hold no footer are handed to \<^verbatim>\<open>collectAndSet\<close> as
  one frame.
\<close>

theorem unterminated_frame_counterexample:
  "HEADER sampleConstants \<in> set (take (AUX_BUF_SIZE sampleConstants) [0xF1, 1, 2, 3, 4, 5, 6, 7]) \<and>
   FOOTER sampleConstants \<notin> set (take (AUX_BUF_SIZE sampleConstants) [0xF1, 1, 2, 3, 4, 5, 6, 7]) \<and>
   snd (checkSerial sampleConstants (sampleState\<lparr>auxRx := [0xF1, 1, 2, 3, 4, 5, 6, 7]\<rparr>))
     = [CollectAndSet [0xF1, 1, 2, 3, 4, 5, 6, 7]]"
  by (simp add: sampleState_def sampleConstants_def checkSerial_def Let_def
      findHeader.simps findFooter.simps)

text \<open>
  Claim C2, amended. When at least 8 bytes wait and the bytes read hold a header and no
  footer at or after the first header, one invocation of the serial check hands exactly one
  frame to the sensor-data intake: the bytes from the first header to the end of what was
  read.
\<close>

theorem unterminated_frame_handed_on:
  assumes "8 \<le> length (auxRx s)"
    and "take (AUX_BUF_SIZE c) (auxRx s) = pre @ HEADER c # post"
    and "HEADER c \<notin> set pre"
    and "FOOTER c \<notin> set (HEADER c # post)"
  shows "framesOf (snd (checkSerial c s)) = [HEADER c # post]"
proof -
  let ?d = "pre @ HEADER c # post"
  have "FOOTER c \<notin> set (drop (length pre) ?d)" using assms(4) by simp
  then have k: "findFooter c ?d (length pre) = length ?d"
    by (intro findFooter_none) simp_all
  have "findHeader c ?d 0 =
     [CollectAndSet (map (\<lambda>j. ?d ! j) [length pre ..< findFooter c ?d (length pre)])]"
    using assms(3) by (intro findHeader_first) simp_all
  then have "findHeader c ?d 0 = [CollectAndSet (HEADER c # post)]"
    unfolding k slice_to_end .
  then show ?thesis
    using assms(1,2)
    by (simp add: checkSerial_def Let_def framesOf_append framesOf_AuxWrite)
qed

theorem unterminated_frame_handed_on_witness:
  "8 \<le> length (auxRx (sampleState\<lparr>auxRx := [0x00, 0xF6, 0xF1, 1, 2, 3, 4, 5]\<rparr>)) \<and>
   take (AUX_BUF_SIZE sampleConstants) (auxRx (sampleState\<lparr>auxRx := [0x00, 0xF6, 0xF1, 1, 2, 3, 4, 5]\<rparr>))
     = [0x00, 0xF6] @ HEADER sampleConstants # [1, 2, 3, 4, 5] \<and>
   HEADER sampleConstants \<notin> set [0x00, 0xF6] \<and>
   FOOTER sampleConstants \<notin> set (HEADER sampleConstants # [1, 2, 3, 4, 5]) \<and>
   framesOf (snd (checkSerial sampleConstants
     (sampleState\<lparr>auxRx := [0x00, 0xF6, 0xF1, 1, 2, 3, 4, 5]\<rparr>))) = [[0xF1, 1, 2, 3, 4, 5]]"
  using unterminated_frame_handed_on [of "sampleState\<lparr>auxRx := [0x00, 0xF6, 0xF1, 1, 2, 3, 4, 5]\<rparr>"
      sampleConstants "[0x00, 0xF6]" "[1, 2, 3, 4, 5]"]
  by (simp add: sampleState_def sampleConstants_def)

section \<open>Properties of the reconnect check\<close>

text \<open>An invocation that starts no scan increments the counter and changes nothing else.\<close>

lemma reconnect_no_scan:
  "snd (checkBLEReconnect c s) = [] \<Longrightarrow>
   checkBLEReconnect c s = (s\<lparr>bleCheck := bleCheck s + 1\<rparr>, [])"
  by (simp add: checkBLEReconnect_def Let_def split: if_splits)

text \<open>
  The power meter's half of the condition waits for the counter: with the heart-rate half
  false and the counter under the threshold, no scan is started.
\<close>

lemma reconnect_power_meter_waits:
  assumes "connectedHeartMonitor s = ''any'' \<or> connectedHR s"
    and "bleCheck s <s BLE_RECONNECT_INTERVAL c"
  shows "checkBLEReconnect c s = (s\<lparr>bleCheck := bleCheck s + 1\<rparr>, [])"
  using assms by (auto simp: checkBLEReconnect_def Let_def word_sless_alt word_sle_eq)

text \<open>
  Claim C3 does not hold on the code: the heart-rate half of the condition is not guarded
  by the counter. With a heart-rate monitor configured by name and not connected, and the
  counter at 3 under the threshold 15, the invocation resets the devices and starts a scan;
  the counter is set to 0 and then incremented to 1.
\<close>

theorem reconnect_scan_before_cooldown:
  "connectedHeartMonitor (sampleState\<lparr>connectedHeartMonitor := ''Polar H7'', bleCheck := 3\<rparr>) \<noteq> ''any'' \<and>
   connectedHeartMonitor (sampleState\<lparr>connectedHeartMonitor := ''Polar H7'', bleCheck := 3\<rparr>) \<noteq> ''none'' \<and>
   \<not> connectedHR (sampleState\<lparr>connectedHeartMonitor := ''Polar H7'', bleCheck := 3\<rparr>) \<and>
   bleCheck (sampleState\<lparr>connectedHeartMonitor := ''Polar H7'', bleCheck := 3\<rparr>)
     <s BLE_RECONNECT_INTERVAL sampleConstants \<and>
   checkBLEReconnect sampleConstants (sampleState\<lparr>connectedHeartMonitor := ''Polar H7'', bleCheck := 3\<rparr>) =
     (sampleState\<lparr>connectedHeartMonitor := ''Polar H7'', bleCheck := 1\<rparr>,
      [ResetDevices, ServerScan True])"
  by (simp add: sampleState_def sampleConstants_def checkBLEReconnect_def word_sless_alt)

end
